theory Spec2Isabelle
  imports Main "HOL-Library.Word"
begin

section \<open>Values carried by a log record\<close>

text \<open>
  The field map of a logrus entry is a Go \<open>map[string]interface{}\<close>. The values that
  matter to the formatter are strings, error values (\<open>VErr\<close> carries the text that
  \<open>Error()\<close> returns), nested string-keyed maps, and a few plain scalars; \<open>VNaN\<close> is
  the float64 NaN, a value that \<open>encoding/json\<close> refuses to encode. A Go map is
  represented by the list of its bindings, one per key and in the order of the keys,
  which is the order in which \<open>fmt\<close> and \<open>encoding/json\<close> write them; \<open>map_of\<close>
  reads the list and \<open>delete\<close> removes a key.
\<close>

datatype val =
    VNil
  | VBool bool
  | VInt int
  | VStr string
  | VErr string
  | VNaN
  | VMap "(string \<times> val) list"

type_synonym fields = "(string \<times> val) list"

definition delete :: "string \<Rightarrow> fields \<Rightarrow> fields" where
  "delete k m = filter (\<lambda>kv. fst kv \<noteq> k) m"

section \<open>Constants and configuration\<close>

type_synonym severity = string

definition fieldNameTraceID :: string where
  "fieldNameTraceID = ''ot-tracer-traceid''"

definition fieldNameSpanID :: string where
  "fieldNameSpanID = ''ot-tracer-spanid''"

definition severityDebug :: severity where "severityDebug = ''DEBUG''"
definition severityInfo :: severity where "severityInfo = ''INFO''"
definition severityWarning :: severity where "severityWarning = ''WARNING''"
definition severityError :: severity where "severityError = ''ERROR''"
definition severityCritical :: severity where "severityCritical = ''CRITICAL''"
definition severityAlert :: severity where "severityAlert = ''ALERT''"

text \<open>logrus levels are a \<open>uint32\<close>: panic is 0, fatal 1, error 2, warning 3, info 4, debug 5.\<close>

type_synonym level = "32 word"

definition PanicLevel :: level where "PanicLevel = 0"
definition FatalLevel :: level where "FatalLevel = 1"
definition ErrorLevel :: level where "ErrorLevel = 2"
definition WarnLevel :: level where "WarnLevel = 3"
definition InfoLevel :: level where "InfoLevel = 4"
definition DebugLevel :: level where "DebugLevel = 5"

text \<open>Reading a key that the Go map \<open>levelsToSeverity\<close> lacks gives the empty severity.\<close>

definition levelsToSeverity :: "level \<Rightarrow> severity" where
  "levelsToSeverity l =
     (if l = DebugLevel then severityDebug
      else if l = InfoLevel then severityInfo
      else if l = WarnLevel then severityWarning
      else if l = ErrorLevel then severityError
      else if l = FatalLevel then severityCritical
      else if l = PanicLevel then severityAlert
      else [])"

record Formatter =
  Service :: string
  Version :: string
  StackSkip :: "string list"

text \<open>
  The package-level variables of the formatter, together with the reading of the clock
  (\<open>time.Now().UTC().Format(time.RFC3339)\<close>) that a call observes.
\<close>

record globals =
  skipTimestamp :: bool
  DefaultSubjectKey :: string
  DefaultOperationIdKey :: string
  now :: string

definition default_globals :: globals where
  "default_globals =
     \<lparr>skipTimestamp = False, DefaultSubjectKey = ''X-Subject-Id'',
      DefaultOperationIdKey = ''X-Request-Id'', now = ''2026-01-01T00:00:00Z''\<rparr>"

definition WithService :: "string \<Rightarrow> Formatter \<Rightarrow> Formatter" where
  "WithService n f = f\<lparr>Service := n\<rparr>"

definition WithVersion :: "string \<Rightarrow> Formatter \<Rightarrow> Formatter" where
  "WithVersion v f = f\<lparr>Version := v\<rparr>"

definition WithStackSkip :: "string \<Rightarrow> Formatter \<Rightarrow> Formatter" where
  "WithStackSkip v f = f\<lparr>StackSkip := StackSkip f @ [v]\<rparr>"

definition NewFormatter :: "(Formatter \<Rightarrow> Formatter) list \<Rightarrow> Formatter" where
  "NewFormatter options =
     foldl (\<lambda>fmtr option. option fmtr)
       \<lparr>Service = [], Version = [], StackSkip = [''github.com/sirupsen/logrus'']\<rparr> options"

section \<open>The call stack\<close>

text \<open>
  A resolved frame is described by what the stack library renders for it under the four
  verbs the formatter uses: \<open>%+k\<close> (package path), \<open>%+s\<close> (file path), \<open>%d\<close>
  (line) and \<open>%n\<close> (function name). The stack is the list of frames seen from
  \<open>errorOrigin\<close>: index 0 is \<open>errorOrigin\<close> itself, index 1 its caller \<open>Format\<close>.
  \<open>stack.Caller i\<close> beyond the end of the stack is the zero \<open>Call\<close>, for which
  \<open>MarshalText\<close> fails with \<open>ErrNoFunc\<close>.
\<close>

record frame =
  pkg_path :: string
  file_path :: string
  line :: int
  func_name :: string

datatype call = NoFunc | Resolved frame

definition Caller :: "frame list \<Rightarrow> nat \<Rightarrow> call" where
  "Caller st i = (if i < length st then Resolved (st ! i) else NoFunc)"

datatype error = ErrNoFunc | UnsupportedValue

text \<open>\<open>errorOrigin\<close> looks only at the error of \<open>MarshalText\<close> and drops the text.\<close>

definition MarshalText :: "call \<Rightarrow> error + string" where
  "MarshalText c = (case c of NoFunc \<Rightarrow> Inl ErrNoFunc | Resolved fr \<Rightarrow> Inr (file_path fr))"

subsection \<open>strings.SplitN with a limit of two\<close>

text \<open>
  \<open>strings.SplitN s sep 2\<close> cuts \<open>s\<close> at the leftmost occurrence of \<open>sep\<close> and
  returns the two pieces, or \<open>s\<close> alone when \<open>sep\<close> does not occur.
\<close>

fun SplitN2 :: "string \<Rightarrow> string \<Rightarrow> string list" where
  "SplitN2 [] sep = [[]]"
| "SplitN2 (c # cs) sep =
     (if take (length sep) (c # cs) = sep then [[], drop (length sep) (c # cs)]
      else (case SplitN2 cs sep of
              [a] \<Rightarrow> [c # a]
            | a # rest \<Rightarrow> (c # a) # rest
            | [] \<Rightarrow> []))"

definition vendor :: string where
  "vendor = ''/vendor/''"

subsection \<open>errorOrigin\<close>

text \<open>The verb \<open>%+k\<close>: the import path of the frame's package.\<close>

definition fmt_plus_k :: "call \<Rightarrow> string" where
  "fmt_plus_k c = (case c of NoFunc \<Rightarrow> ''%!k(NOFUNC)'' | Resolved fr \<Rightarrow> pkg_path fr)"

fun skip_list :: "string list \<Rightarrow> string \<Rightarrow> bool" where
  "skip_list [] pkg = False"
| "skip_list (s # ss) pkg = (if pkg = s then True else skip_list ss pkg)"

definition skip :: "Formatter \<Rightarrow> string \<Rightarrow> bool" where
  "skip f pkg = skip_list (StackSkip f) pkg"

text \<open>
  The loop \<open>for i := 2; ; i++\<close>, started at any index. It ends because
  \<open>MarshalText\<close> fails as soon as \<open>i\<close> leaves the stack.
\<close>

function errorOrigin_from :: "Formatter \<Rightarrow> frame list \<Rightarrow> nat \<Rightarrow> error + call" where
  "errorOrigin_from f st i =
     (let c = Caller st i in
      case MarshalText c of
        Inl err \<Rightarrow> Inr NoFunc
      | Inr txt \<Rightarrow>
          (let pkg = fmt_plus_k c;
               parts = SplitN2 pkg vendor;
               pkg = last parts
           in if \<not> skip f pkg then Inr c
              else errorOrigin_from f st (i + 1)))"
  by pat_completeness auto
termination
  by (relation "measure (\<lambda>(f, st, i). length st - i)")
     (auto simp: Caller_def MarshalText_def split: if_splits)

declare errorOrigin_from.simps [simp del]

definition errorOrigin :: "Formatter \<Rightarrow> frame list \<Rightarrow> error + call" where
  "errorOrigin f st = errorOrigin_from f st 2"

section \<open>Rendering with fmt and strconv\<close>

definition digit_char :: "nat \<Rightarrow> char" where
  "digit_char d = ''0123456789'' ! d"

function digits :: "nat \<Rightarrow> string" where
  "digits n = (if n < 10 then [digit_char n] else digits (n div 10) @ [digit_char (n mod 10)])"
  by pat_completeness auto
termination
  by (relation "measure id") auto

declare digits.simps [simp del]

text \<open>The verb \<open>%d\<close> on an integer.\<close>

definition decimal :: "int \<Rightarrow> string" where
  "decimal i = (if i < 0 then CHR ''-'' # digits (nat (- i)) else digits (nat i))"

fun join :: "string \<Rightarrow> string list \<Rightarrow> string" where
  "join sep [] = []"
| "join sep [x] = x"
| "join sep (x # y # ys) = x @ sep @ join sep (y # ys)"

text \<open>
  The verb \<open>%s\<close> on a value held in an \<open>interface{}\<close>: a string prints as itself,
  an error prints its \<open>Error()\<close> text, a map prints its bindings, and a value of any
  other kind prints as a bad-verb marker.
\<close>

fun fmt_s :: "val \<Rightarrow> string"
  and fmt_s_bindings :: "(string \<times> val) list \<Rightarrow> string list" where
  "fmt_s VNil = ''%!s(<nil>)''"
| "fmt_s (VBool b) = ''%!s(bool='' @ (if b then ''true'' else ''false'') @ '')''"
| "fmt_s (VInt i) = ''%!s(int='' @ decimal i @ '')''"
| "fmt_s (VStr s) = s"
| "fmt_s (VErr s) = s"
| "fmt_s VNaN = ''%!s(float64=NaN)''"
| "fmt_s (VMap m) = ''map['' @ join '' '' (fmt_s_bindings m) @ '']''"
| "fmt_s_bindings [] = []"
| "fmt_s_bindings (kv # m) = (fst kv @ '':'' @ fmt_s (snd kv)) # fmt_s_bindings m"

text \<open>
  The stack library renders the zero \<open>Call\<close> as \<open>%!v(NOFUNC)\<close> with the verb in
  place of \<open>v\<close>.
\<close>

definition fmt_plus_s :: "call \<Rightarrow> string" where
  "fmt_plus_s c = (case c of NoFunc \<Rightarrow> ''%!s(NOFUNC)'' | Resolved fr \<Rightarrow> file_path fr)"

definition fmt_d :: "call \<Rightarrow> string" where
  "fmt_d c = (case c of NoFunc \<Rightarrow> ''%!d(NOFUNC)'' | Resolved fr \<Rightarrow> decimal (line fr))"

definition fmt_n :: "call \<Rightarrow> string" where
  "fmt_n c = (case c of NoFunc \<Rightarrow> ''%!n(NOFUNC)'' | Resolved fr \<Rightarrow> func_name fr)"

fun position :: "char \<Rightarrow> string \<Rightarrow> nat \<Rightarrow> nat option" where
  "position c [] n = None"
| "position c (d # ds) n = (if c = d then Some n else position c ds (Suc n))"

definition digit_val :: "char \<Rightarrow> nat option" where
  "digit_val c = position c ''0123456789'' 0"

fun parse_digits :: "nat \<Rightarrow> string \<Rightarrow> nat option" where
  "parse_digits acc [] = Some acc"
| "parse_digits acc (c # cs) =
     (case digit_val c of None \<Rightarrow> None | Some d \<Rightarrow> parse_digits (10 * acc + d) cs)"

datatype parse_error = ErrSyntax | ErrRange

text \<open>
  \<open>strconv.ParseInt s 10 64\<close> returns a value together with its error: 0 on a syntax
  error, the nearest bound of int64 on a range error.
\<close>

definition ParseInt :: "string \<Rightarrow> int \<times> parse_error option" where
  "ParseInt s =
     (let neg = (s \<noteq> [] \<and> hd s = CHR ''-'');
          body = (if s \<noteq> [] \<and> (hd s = CHR ''-'' \<or> hd s = CHR ''+'') then tl s else s)
      in if body = [] then (0, Some ErrSyntax)
         else (case parse_digits 0 body of
                 None \<Rightarrow> (0, Some ErrSyntax)
               | Some n \<Rightarrow>
                   if \<not> neg \<and> int n \<ge> 2 ^ 63 then (2 ^ 63 - 1, Some ErrRange)
                   else if neg \<and> int n > 2 ^ 63 then (- (2 ^ 63), Some ErrRange)
                   else (if neg then - int n else int n, None)))"

section \<open>The output envelope\<close>

record serviceContext =
  sc_Service :: string
  sc_Version :: string

record reportLocation =
  FilePath :: string
  LineNumber :: int
  FunctionName :: string

record operation =
  Id :: string
  Producer :: string
  First :: "bool option"
  Last :: "bool option"

record sourceLocation =
  File :: string
  Line :: string
  Function :: string

record context_rec =
  Data :: fields
  ReportLocation :: "reportLocation option"
  HTTPRequest :: fields
  User :: string

text \<open>Pointer fields are options: \<open>None\<close> is the nil pointer.\<close>

record entry =
  Timestamp :: string
  ServiceContext :: "serviceContext option"
  Message :: string
  Severity :: severity
  Context :: "context_rec option"
  Trace :: string
  SpanID :: string
  SourceLocation :: "sourceLocation option"
  Operation :: "operation option"

text \<open>The logrus entry handed to the formatter.\<close>

record Entry =
  Entry_Data :: fields
  Entry_Message :: string
  Entry_Level :: level

section \<open>JSON encoding\<close>

text \<open>
  The document that \<open>json.Marshal\<close> writes, as a tree. The byte sequence returned by
  \<open>Format\<close> is the text of this tree followed by a newline.
\<close>

datatype json =
    JNull
  | JBool bool
  | JNum int
  | JStr string
  | JObj "(string \<times> json) list"

text \<open>
  An error value made by \<open>errors.New\<close> or \<open>fmt.Errorf\<close> has no exported field and
  is encoded as the empty object.
\<close>

fun marshal_val :: "val \<Rightarrow> error + json"
  and marshal_map :: "(string \<times> val) list \<Rightarrow> error + (string \<times> json) list" where
  "marshal_val VNil = Inr JNull"
| "marshal_val (VBool b) = Inr (JBool b)"
| "marshal_val (VInt i) = Inr (JNum i)"
| "marshal_val (VStr s) = Inr (JStr s)"
| "marshal_val (VErr s) = Inr (JObj [])"
| "marshal_val VNaN = Inl UnsupportedValue"
| "marshal_val (VMap m) =
     (case marshal_map m of Inl err \<Rightarrow> Inl err | Inr kvs \<Rightarrow> Inr (JObj kvs))"
| "marshal_map [] = Inr []"
| "marshal_map (kv # m) =
     (case marshal_val (snd kv) of
        Inl err \<Rightarrow> Inl err
      | Inr j \<Rightarrow>
          (case marshal_map m of
             Inl err \<Rightarrow> Inl err
           | Inr kvs \<Rightarrow> Inr ((fst kv, j) # kvs)))"

text \<open>The \<open>omitempty\<close> tag: an empty string, a zero number, an empty map and a nil
  pointer are left out; a pointer that is not nil is always written.\<close>

definition omitempty_string :: "string \<Rightarrow> string \<Rightarrow> (string \<times> json) list" where
  "omitempty_string k s = (if s = [] then [] else [(k, JStr s)])"

definition omitempty_int :: "string \<Rightarrow> int \<Rightarrow> (string \<times> json) list" where
  "omitempty_int k n = (if n = 0 then [] else [(k, JNum n)])"

definition omitempty_ptr :: "string \<Rightarrow> json option \<Rightarrow> (string \<times> json) list" where
  "omitempty_ptr k p = (case p of None \<Rightarrow> [] | Some j \<Rightarrow> [(k, j)])"

definition omitempty_map :: "string \<Rightarrow> (string \<times> json) list \<Rightarrow> (string \<times> json) list" where
  "omitempty_map k kvs = (if kvs = [] then [] else [(k, JObj kvs)])"

definition marshal_serviceContext :: "serviceContext \<Rightarrow> json" where
  "marshal_serviceContext sc =
     JObj (omitempty_string ''service'' (sc_Service sc)
         @ omitempty_string ''version'' (sc_Version sc))"

definition marshal_reportLocation :: "reportLocation \<Rightarrow> json" where
  "marshal_reportLocation r =
     JObj (omitempty_string ''filePath'' (FilePath r)
         @ omitempty_int ''lineNumber'' (LineNumber r)
         @ omitempty_string ''functionName'' (FunctionName r))"

definition marshal_operation :: "operation \<Rightarrow> json" where
  "marshal_operation op =
     JObj (omitempty_string ''id'' (Id op)
         @ omitempty_string ''producer'' (Producer op)
         @ omitempty_ptr ''first'' (map_option JBool (First op))
         @ omitempty_ptr ''last'' (map_option JBool (Last op)))"

definition marshal_sourceLocation :: "sourceLocation \<Rightarrow> json" where
  "marshal_sourceLocation sl =
     JObj (omitempty_string ''file'' (File sl)
         @ omitempty_string ''line'' (Line sl)
         @ omitempty_string ''function'' (Function sl))"

definition marshal_context :: "context_rec \<Rightarrow> error + json" where
  "marshal_context c =
     (case marshal_map (Data c) of
        Inl err \<Rightarrow> Inl err
      | Inr d \<Rightarrow>
          (case marshal_map (HTTPRequest c) of
             Inl err \<Rightarrow> Inl err
           | Inr h \<Rightarrow>
               Inr (JObj (omitempty_map ''data'' d
                        @ omitempty_ptr ''reportLocation''
                            (map_option marshal_reportLocation (ReportLocation c))
                        @ omitempty_map ''httpRequest'' h
                        @ omitempty_string ''user'' (User c)))))"

definition marshal_entry :: "entry \<Rightarrow> error + json" where
  "marshal_entry ee =
     (case (case Context ee of
              None \<Rightarrow> Inr None
            | Some c \<Rightarrow> (case marshal_context c of Inl err \<Rightarrow> Inl err | Inr j \<Rightarrow> Inr (Some j))) of
        Inl err \<Rightarrow> Inl err
      | Inr ctx \<Rightarrow>
          Inr (JObj (omitempty_string ''timestamp'' (Timestamp ee)
                   @ omitempty_ptr ''serviceContext''
                       (map_option marshal_serviceContext (ServiceContext ee))
                   @ omitempty_string ''message'' (Message ee)
                   @ omitempty_string ''severity'' (Severity ee)
                   @ omitempty_ptr ''context'' ctx
                   @ omitempty_string ''logging.googleapis.com/trace'' (Trace ee)
                   @ omitempty_string ''logging.googleapis.com/span_id'' (SpanID ee)
                   @ omitempty_ptr ''sourceLocation''
                       (map_option marshal_sourceLocation (SourceLocation ee))
                   @ omitempty_ptr ''operation''
                       (map_option marshal_operation (Operation ee)))))"

section \<open>Format\<close>

definition getStringValue :: "string \<Rightarrow> fields \<Rightarrow> string" where
  "getStringValue key m = (case map_of m key of Some (VStr stringVal) \<Rightarrow> stringVal | _ \<Rightarrow> [])"

text \<open>
  \<open>ee.Context\<close> points to the one context record that \<open>Format\<close> allocates, whose
  \<open>Data\<close> is the caller's own map. The steps below work on the pair of \<open>ee\<close> and that
  record; \<open>Format_entry\<close> stores the record back under the pointer at the end.
\<close>

definition lineNumber_of :: "call \<Rightarrow> int" where
  "lineNumber_of c = fst (ParseInt (fmt_d c))"

definition error_tier :: "Formatter \<Rightarrow> globals \<Rightarrow> frame list \<Rightarrow> Entry
    \<Rightarrow> entry \<times> context_rec \<Rightarrow> entry \<times> context_rec" where
  "error_tier f g st e s =
     (let ee = fst s; c = snd s;
          ee = ee\<lparr>ServiceContext := Some \<lparr>sc_Service = Service f, sc_Version = Version f\<rparr>\<rparr>;
          ee = (case map_of (Data c) ''error'' of
                  Some err \<Rightarrow> ee\<lparr>Message := Entry_Message e @ '': '' @ fmt_s err\<rparr>
                | None \<Rightarrow> ee\<lparr>Message := Entry_Message e\<rparr>);
          c = (case map_of (Data c) ''error'' of
                 Some err \<Rightarrow> c\<lparr>Data := delete ''error'' (Data c)\<rparr>
               | None \<Rightarrow> c);
          c = (case map_of (Data c) ''httpRequest'' of
                 Some (VMap req) \<Rightarrow> c\<lparr>HTTPRequest := req, Data := delete ''httpRequest'' (Data c)\<rparr>
               | _ \<Rightarrow> c);
          user = getStringValue (DefaultSubjectKey g) (Data c);
          c = (if user \<noteq> [] then c\<lparr>User := user, Data := delete (DefaultSubjectKey g) (Data c)\<rparr>
               else c);
          c = (case errorOrigin f st of
                 Inr cl \<Rightarrow>
                   c\<lparr>ReportLocation := Some \<lparr>FilePath = fmt_plus_s cl,
                       LineNumber = lineNumber_of cl, FunctionName = fmt_n cl\<rparr>\<rparr>
               | Inl err \<Rightarrow> c)
      in (ee, c))"

definition default_tier :: "Formatter \<Rightarrow> frame list \<Rightarrow> entry \<times> context_rec
    \<Rightarrow> entry \<times> context_rec" where
  "default_tier f st s =
     (let ee = fst s; c = snd s;
          ee = (case errorOrigin f st of
                  Inr cl \<Rightarrow>
                    ee\<lparr>SourceLocation := Some \<lparr>File = fmt_plus_s cl,
                        Line = decimal (lineNumber_of cl), Function = fmt_n cl\<rparr>\<rparr>
                | Inl err \<Rightarrow> ee)
      in (ee, c))"

definition extract_operation :: "globals \<Rightarrow> entry \<times> context_rec \<Rightarrow> entry \<times> context_rec" where
  "extract_operation g s =
     (let ee = fst s; c = snd s;
          operationId = getStringValue (DefaultOperationIdKey g) (Data c)
      in if operationId \<noteq> []
         then (ee\<lparr>Operation := Some \<lparr>Id = operationId, Producer = [], First = None, Last = None\<rparr>\<rparr>,
               c\<lparr>Data := delete (DefaultOperationIdKey g) (Data c)\<rparr>)
         else (ee, c))"

definition extract_trace :: "entry \<times> context_rec \<Rightarrow> entry \<times> context_rec" where
  "extract_trace s =
     (let ee = fst s; c = snd s;
          traceId = getStringValue fieldNameTraceID (Data c)
      in if traceId \<noteq> []
         then (ee\<lparr>Trace := traceId\<rparr>, c\<lparr>Data := delete fieldNameTraceID (Data c)\<rparr>)
         else (ee, c))"

definition extract_span :: "entry \<times> context_rec \<Rightarrow> entry \<times> context_rec" where
  "extract_span s =
     (let ee = fst s; c = snd s;
          spanId = getStringValue fieldNameSpanID (Data c)
      in if spanId \<noteq> []
         then (ee\<lparr>SpanID := spanId\<rparr>, c\<lparr>Data := delete fieldNameSpanID (Data c)\<rparr>)
         else (ee, c))"

definition is_error_tier :: "severity \<Rightarrow> bool" where
  "is_error_tier s = (s = severityError \<or> s = severityCritical \<or> s = severityAlert)"

definition initial_state :: "globals \<Rightarrow> Entry \<Rightarrow> entry \<times> context_rec" where
  "initial_state g e =
     (let severity = levelsToSeverity (Entry_Level e);
          c = \<lparr>Data = Entry_Data e, ReportLocation = None, HTTPRequest = [], User = []\<rparr>;
          ee = \<lparr>Timestamp = [], ServiceContext = None, Message = Entry_Message e,
                Severity = severity, Context = None, Trace = [], SpanID = [],
                SourceLocation = None, Operation = None\<rparr>;
          ee = (if \<not> skipTimestamp g then ee\<lparr>Timestamp := now g\<rparr> else ee)
      in (ee, c))"

definition Format_state :: "Formatter \<Rightarrow> globals \<Rightarrow> frame list \<Rightarrow> Entry \<Rightarrow> entry \<times> context_rec" where
  "Format_state f g st e =
     (let s = initial_state g e;
          s = (if is_error_tier (Severity (fst s)) then error_tier f g st e s
               else default_tier f st s);
          s = extract_operation g s;
          s = extract_trace s;
          s = extract_span s
      in s)"

text \<open>The envelope handed to \<open>json.Marshal\<close>.\<close>

definition Format_entry :: "Formatter \<Rightarrow> globals \<Rightarrow> frame list \<Rightarrow> Entry \<Rightarrow> entry" where
  "Format_entry f g st e =
     (let s = Format_state f g st e in (fst s)\<lparr>Context := Some (snd s)\<rparr>)"

text \<open>
  \<open>Format\<close> returns the encoded document or the encoder's error, and leaves the
  caller's entry with the field map as the extraction steps left it.
\<close>

definition Format :: "Formatter \<Rightarrow> globals \<Rightarrow> frame list \<Rightarrow> Entry \<Rightarrow> (error + json) \<times> Entry" where
  "Format f g st e =
     (let ee = Format_entry f g st e
      in (marshal_entry ee, e\<lparr>Entry_Data := Data (snd (Format_state f g st e))\<rparr>))"

text \<open>The context record and the envelope fields as \<open>json.Marshal\<close> finds them.\<close>

definition Format_context :: "Formatter \<Rightarrow> globals \<Rightarrow> frame list \<Rightarrow> Entry \<Rightarrow> context_rec" where
  "Format_context f g st e = snd (Format_state f g st e)"

section \<open>The effect of the extraction steps on the field map\<close>

text \<open>
  Each extraction step of \<open>Format\<close> reads a key and, when it moves the value out,
  deletes the key. The functions below name that effect on the map alone; the step
  lemmas further down show that the steps change the map in exactly this way.
\<close>

text \<open>Moving a string out of the map removes its key only when the string is not empty.\<close>

definition drop_string :: "string \<Rightarrow> fields \<Rightarrow> fields" where
  "drop_string k m = (if getStringValue k m \<noteq> [] then delete k m else m)"

text \<open>Moving the request out of the map removes its key only when the value is a map.\<close>

definition drop_request :: "fields \<Rightarrow> fields" where
  "drop_request m =
     (case map_of m ''httpRequest'' of Some (VMap req) \<Rightarrow> delete ''httpRequest'' m | _ \<Rightarrow> m)"

text \<open>The field map after the severity switch.\<close>

definition switch_data :: "globals \<Rightarrow> Entry \<Rightarrow> fields" where
  "switch_data g e =
     (if is_error_tier (levelsToSeverity (Entry_Level e))
      then drop_string (DefaultSubjectKey g) (drop_request (delete ''error'' (Entry_Data e)))
      else Entry_Data e)"

section \<open>Reading the output document\<close>

definition obj_get :: "json \<Rightarrow> string \<Rightarrow> json option" where
  "obj_get j k = (case j of JObj kvs \<Rightarrow> map_of kvs k | _ \<Rightarrow> None)"

definition has_key :: "json \<Rightarrow> string \<Rightarrow> bool" where
  "has_key j k = (obj_get j k \<noteq> None)"

definition obj_get2 :: "json \<Rightarrow> string \<Rightarrow> string \<Rightarrow> json option" where
  "obj_get2 j k1 k2 = (case obj_get j k1 of None \<Rightarrow> None | Some j' \<Rightarrow> obj_get j' k2)"

text \<open>The keys of \<open>context.data\<close> in the output; none when \<open>data\<close> is left out.\<close>

definition data_keys :: "json \<Rightarrow> string set" where
  "data_keys doc =
     (case obj_get2 doc ''context'' ''data'' of Some (JObj kvs) \<Rightarrow> set (map fst kvs) | _ \<Rightarrow> {})"

definition origin_found :: "Formatter \<Rightarrow> frame list \<Rightarrow> bool" where
  "origin_found f st = (case errorOrigin f st of Inr (Resolved fr) \<Rightarrow> True | _ \<Rightarrow> False)"

text \<open>Reading the result of \<open>Format\<close>: nothing can be read from a failure.\<close>

definition out_get :: "error + json \<Rightarrow> string \<Rightarrow> json option" where
  "out_get r k = (case r of Inl err \<Rightarrow> None | Inr doc \<Rightarrow> obj_get doc k)"

definition out_get2 :: "error + json \<Rightarrow> string \<Rightarrow> string \<Rightarrow> json option" where
  "out_get2 r k1 k2 = (case r of Inl err \<Rightarrow> None | Inr doc \<Rightarrow> obj_get2 doc k1 k2)"

text \<open>The zero or empty value of each JSON kind.\<close>

definition empty_json :: "json \<Rightarrow> bool" where
  "empty_json j =
     (case j of JNull \<Rightarrow> True | JBool b \<Rightarrow> \<not> b | JNum n \<Rightarrow> n = 0 | JStr s \<Rightarrow> s = []
      | JObj kvs \<Rightarrow> kvs = [])"




section \<open>Sample stacks and records\<close>

definition fr_errorOrigin :: frame where
  "fr_errorOrigin =
     \<lparr>pkg_path = ''github.com/connctd/logrus-stackdriver-formatter'',
      file_path = ''github.com/connctd/logrus-stackdriver-formatter/formatter.go'',
      line = 149, func_name = ''(*Formatter).errorOrigin''\<rparr>"

definition fr_Format :: frame where
  "fr_Format =
     \<lparr>pkg_path = ''github.com/connctd/logrus-stackdriver-formatter'',
      file_path = ''github.com/connctd/logrus-stackdriver-formatter/formatter.go'',
      line = 225, func_name = ''(*Formatter).Format''\<rparr>"

definition fr_logrus :: frame where
  "fr_logrus =
     \<lparr>pkg_path = ''github.com/sirupsen/logrus'',
      file_path = ''github.com/sirupsen/logrus/entry.go'',
      line = 289, func_name = ''(*Entry).write''\<rparr>"

definition fr_main :: frame where
  "fr_main =
     \<lparr>pkg_path = ''main'', file_path = ''main/main.go'', line = 19, func_name = ''main''\<rparr>"

definition fr_runtime :: frame where
  "fr_runtime =
     \<lparr>pkg_path = ''runtime'', file_path = ''runtime/proc.go'', line = 250,
      func_name = ''main''\<rparr>"



definition stack_main :: "frame list" where
  "stack_main = [fr_errorOrigin, fr_Format, fr_logrus, fr_main, fr_runtime]"



definition fmtr_default :: Formatter where
  "fmtr_default = NewFormatter []"

definition fmtr_test :: Formatter where
  "fmtr_test = NewFormatter [WithService ''test'', WithVersion ''0.1'']"

text \<open>A formatter told to skip every package that occurs on \<open>stack_main\<close>.\<close>

definition fmtr_skip_all :: Formatter where
  "fmtr_skip_all = NewFormatter [WithStackSkip ''main'', WithStackSkip ''runtime'']"

definition quiet_globals :: globals where
  "quiet_globals = default_globals\<lparr>skipTimestamp := True\<rparr>"

definition rec_info_empty :: Entry where
  "rec_info_empty =
     \<lparr>Entry_Data = [], Entry_Message = ''application up and running'',
      Entry_Level = InfoLevel\<rparr>"

definition rec_error_empty :: Entry where
  "rec_error_empty =
     \<lparr>Entry_Data = [], Entry_Message = ''my log entry'', Entry_Level = ErrorLevel\<rparr>"






text \<open>A record at the trace level of logrus, which \<open>levelsToSeverity\<close> does not list.\<close>

definition rec_trace_level :: Entry where
  "rec_trace_level =
     \<lparr>Entry_Data = [(''error'', VErr ''test error'')], Entry_Message = ''my log entry'',
      Entry_Level = 6\<rparr>"

section \<open>Origin resolution\<close>





lemma errorOrigin_from_end:
  assumes "length st \<le> i"
  shows "errorOrigin_from f st i = Inr NoFunc"
  using assms
  by (subst errorOrigin_from.simps) (simp add: Caller_def MarshalText_def)

section \<open>Step lemmas for Format\<close>

lemma map_of_delete: "map_of (delete k m) k' = (if k' = k then None else map_of m k')"
  by (induction m) (auto simp: delete_def)

lemma delete_absent: "map_of m k = None \<Longrightarrow> delete k m = m"
  by (induction m) (auto simp: delete_def split: if_splits)

lemma getStringValue_delete:
  "getStringValue k' (delete k m) = (if k' = k then [] else getStringValue k' m)"
  by (simp add: getStringValue_def map_of_delete)


lemma getStringValue_drop_string:
  "getStringValue k' (drop_string k m) = (if k' = k then [] else getStringValue k' m)"
  by (simp add: drop_string_def getStringValue_delete)


lemma errorOrigin_from_Inr: "\<exists>c. errorOrigin_from f st i = Inr c"
proof (induction f st i rule: errorOrigin_from.induct)
  case (1 f st i)
  show ?case
    by (subst errorOrigin_from.simps) (use 1 in \<open>auto simp: Let_def split: sum.splits\<close>)
qed

lemma errorOrigin_Inr: "\<exists>c. errorOrigin f st = Inr c"
  by (simp add: errorOrigin_def errorOrigin_from_Inr)

lemma initial_state_proj:
  "Data (snd (initial_state g e)) = Entry_Data e"
  "ReportLocation (snd (initial_state g e)) = None"
  "HTTPRequest (snd (initial_state g e)) = []"
  "User (snd (initial_state g e)) = []"
  "Timestamp (fst (initial_state g e)) = (if skipTimestamp g then [] else now g)"
  "ServiceContext (fst (initial_state g e)) = None"
  "Message (fst (initial_state g e)) = Entry_Message e"
  "Severity (fst (initial_state g e)) = levelsToSeverity (Entry_Level e)"
  "Trace (fst (initial_state g e)) = []"
  "SpanID (fst (initial_state g e)) = []"
  "SourceLocation (fst (initial_state g e)) = None"
  "Operation (fst (initial_state g e)) = None"
  by (simp_all add: initial_state_def Let_def)

lemma error_tier_ctx:
  "Data (snd (error_tier f g st e s)) =
     drop_string (DefaultSubjectKey g) (drop_request (delete ''error'' (Data (snd s))))"
  "HTTPRequest (snd (error_tier f g st e s)) =
     (case map_of (delete ''error'' (Data (snd s))) ''httpRequest'' of
        Some (VMap req) \<Rightarrow> req | _ \<Rightarrow> HTTPRequest (snd s))"
  "User (snd (error_tier f g st e s)) =
     (if getStringValue (DefaultSubjectKey g) (drop_request (delete ''error'' (Data (snd s)))) \<noteq> []
      then getStringValue (DefaultSubjectKey g) (drop_request (delete ''error'' (Data (snd s))))
      else User (snd s))"
  "ReportLocation (snd (error_tier f g st e s)) =
     (case errorOrigin f st of
        Inr cl \<Rightarrow> Some \<lparr>FilePath = fmt_plus_s cl, LineNumber = lineNumber_of cl,
                        FunctionName = fmt_n cl\<rparr>
      | Inl err \<Rightarrow> ReportLocation (snd s))"
  by (auto simp: error_tier_def Let_def drop_string_def drop_request_def delete_absent
      split: option.splits val.splits sum.splits)

lemma error_tier_entry:
  "Timestamp (fst (error_tier f g st e s)) = Timestamp (fst s)"
  "ServiceContext (fst (error_tier f g st e s)) = Some \<lparr>sc_Service = Service f, sc_Version = Version f\<rparr>"
  "Message (fst (error_tier f g st e s)) =
     (case map_of (Data (snd s)) ''error'' of
        Some err \<Rightarrow> Entry_Message e @ '': '' @ fmt_s err | None \<Rightarrow> Entry_Message e)"
  "Severity (fst (error_tier f g st e s)) = Severity (fst s)"
  "Trace (fst (error_tier f g st e s)) = Trace (fst s)"
  "SpanID (fst (error_tier f g st e s)) = SpanID (fst s)"
  "SourceLocation (fst (error_tier f g st e s)) = SourceLocation (fst s)"
  "Operation (fst (error_tier f g st e s)) = Operation (fst s)"
  by (simp_all add: error_tier_def Let_def split: option.splits)

lemma default_tier_ctx: "snd (default_tier f st s) = snd s"
  by (simp add: default_tier_def Let_def)

lemma default_tier_entry:
  "Timestamp (fst (default_tier f st s)) = Timestamp (fst s)"
  "ServiceContext (fst (default_tier f st s)) = ServiceContext (fst s)"
  "Message (fst (default_tier f st s)) = Message (fst s)"
  "Severity (fst (default_tier f st s)) = Severity (fst s)"
  "Trace (fst (default_tier f st s)) = Trace (fst s)"
  "SpanID (fst (default_tier f st s)) = SpanID (fst s)"
  "SourceLocation (fst (default_tier f st s)) =
     (case errorOrigin f st of
        Inr cl \<Rightarrow> Some \<lparr>File = fmt_plus_s cl, Line = decimal (lineNumber_of cl),
                        Function = fmt_n cl\<rparr>
      | Inl err \<Rightarrow> SourceLocation (fst s))"
  "Operation (fst (default_tier f st s)) = Operation (fst s)"
  by (simp_all add: default_tier_def Let_def split: sum.splits)

lemma extract_operation_ctx:
  "Data (snd (extract_operation g s)) = drop_string (DefaultOperationIdKey g) (Data (snd s))"
  "ReportLocation (snd (extract_operation g s)) = ReportLocation (snd s)"
  "HTTPRequest (snd (extract_operation g s)) = HTTPRequest (snd s)"
  "User (snd (extract_operation g s)) = User (snd s)"
  by (simp_all add: extract_operation_def Let_def drop_string_def)

lemma extract_operation_entry:
  "Timestamp (fst (extract_operation g s)) = Timestamp (fst s)"
  "ServiceContext (fst (extract_operation g s)) = ServiceContext (fst s)"
  "Message (fst (extract_operation g s)) = Message (fst s)"
  "Severity (fst (extract_operation g s)) = Severity (fst s)"
  "Trace (fst (extract_operation g s)) = Trace (fst s)"
  "SpanID (fst (extract_operation g s)) = SpanID (fst s)"
  "SourceLocation (fst (extract_operation g s)) = SourceLocation (fst s)"
  "Operation (fst (extract_operation g s)) =
     (if getStringValue (DefaultOperationIdKey g) (Data (snd s)) \<noteq> []
      then Some \<lparr>Id = getStringValue (DefaultOperationIdKey g) (Data (snd s)), Producer = [],
                  First = None, Last = None\<rparr>
      else Operation (fst s))"
  by (simp_all add: extract_operation_def Let_def)

lemma extract_trace_ctx:
  "Data (snd (extract_trace s)) = drop_string fieldNameTraceID (Data (snd s))"
  "ReportLocation (snd (extract_trace s)) = ReportLocation (snd s)"
  "HTTPRequest (snd (extract_trace s)) = HTTPRequest (snd s)"
  "User (snd (extract_trace s)) = User (snd s)"
  by (simp_all add: extract_trace_def Let_def drop_string_def)

lemma extract_trace_entry:
  "Timestamp (fst (extract_trace s)) = Timestamp (fst s)"
  "ServiceContext (fst (extract_trace s)) = ServiceContext (fst s)"
  "Message (fst (extract_trace s)) = Message (fst s)"
  "Severity (fst (extract_trace s)) = Severity (fst s)"
  "Trace (fst (extract_trace s)) =
     (if getStringValue fieldNameTraceID (Data (snd s)) \<noteq> []
      then getStringValue fieldNameTraceID (Data (snd s)) else Trace (fst s))"
  "SpanID (fst (extract_trace s)) = SpanID (fst s)"
  "SourceLocation (fst (extract_trace s)) = SourceLocation (fst s)"
  "Operation (fst (extract_trace s)) = Operation (fst s)"
  by (simp_all add: extract_trace_def Let_def)

lemma extract_span_ctx:
  "Data (snd (extract_span s)) = drop_string fieldNameSpanID (Data (snd s))"
  "ReportLocation (snd (extract_span s)) = ReportLocation (snd s)"
  "HTTPRequest (snd (extract_span s)) = HTTPRequest (snd s)"
  "User (snd (extract_span s)) = User (snd s)"
  by (simp_all add: extract_span_def Let_def drop_string_def)

lemma extract_span_entry:
  "Timestamp (fst (extract_span s)) = Timestamp (fst s)"
  "ServiceContext (fst (extract_span s)) = ServiceContext (fst s)"
  "Message (fst (extract_span s)) = Message (fst s)"
  "Severity (fst (extract_span s)) = Severity (fst s)"
  "Trace (fst (extract_span s)) = Trace (fst s)"
  "SpanID (fst (extract_span s)) =
     (if getStringValue fieldNameSpanID (Data (snd s)) \<noteq> []
      then getStringValue fieldNameSpanID (Data (snd s)) else SpanID (fst s))"
  "SourceLocation (fst (extract_span s)) = SourceLocation (fst s)"
  "Operation (fst (extract_span s)) = Operation (fst s)"
  by (simp_all add: extract_span_def Let_def)

lemmas step_proj = initial_state_proj error_tier_ctx error_tier_entry default_tier_ctx
  default_tier_entry extract_operation_ctx extract_operation_entry extract_trace_ctx
  extract_trace_entry extract_span_ctx extract_span_entry

lemma Format_Data:
  "Data (Format_context f g st e) =
     drop_string fieldNameSpanID (drop_string fieldNameTraceID
       (drop_string (DefaultOperationIdKey g) (switch_data g e)))"
  by (simp add: Format_context_def Format_state_def Let_def step_proj switch_data_def)

lemma Format_HTTPRequest:
  "HTTPRequest (Format_context f g st e) =
     (if is_error_tier (levelsToSeverity (Entry_Level e))
      then (case map_of (delete ''error'' (Entry_Data e)) ''httpRequest'' of
              Some (VMap req) \<Rightarrow> req | _ \<Rightarrow> [])
      else [])"
  by (simp add: Format_context_def Format_state_def Let_def step_proj
      split: option.splits val.splits)

lemma Format_User:
  "User (Format_context f g st e) =
     (if is_error_tier (levelsToSeverity (Entry_Level e))
      then getStringValue (DefaultSubjectKey g) (drop_request (delete ''error'' (Entry_Data e)))
      else [])"
  by (simp add: Format_context_def Format_state_def Let_def step_proj)

lemma Format_ReportLocation:
  assumes "errorOrigin f st = Inr cl"
  shows "ReportLocation (Format_context f g st e) =
     (if is_error_tier (levelsToSeverity (Entry_Level e))
      then Some \<lparr>FilePath = fmt_plus_s cl, LineNumber = lineNumber_of cl, FunctionName = fmt_n cl\<rparr>
      else None)"
  using assms by (simp add: Format_context_def Format_state_def Let_def step_proj)

lemma Format_entry_fields:
  "Timestamp (Format_entry f g st e) = (if skipTimestamp g then [] else now g)"
  "ServiceContext (Format_entry f g st e) =
     (if is_error_tier (levelsToSeverity (Entry_Level e))
      then Some \<lparr>sc_Service = Service f, sc_Version = Version f\<rparr> else None)"
  "Message (Format_entry f g st e) =
     (if is_error_tier (levelsToSeverity (Entry_Level e))
      then (case map_of (Entry_Data e) ''error'' of
              Some err \<Rightarrow> Entry_Message e @ '': '' @ fmt_s err | None \<Rightarrow> Entry_Message e)
      else Entry_Message e)"
  "Severity (Format_entry f g st e) = levelsToSeverity (Entry_Level e)"
  "Context (Format_entry f g st e) = Some (Format_context f g st e)"
  "Trace (Format_entry f g st e) =
     getStringValue fieldNameTraceID (drop_string (DefaultOperationIdKey g) (switch_data g e))"
  "SpanID (Format_entry f g st e) =
     getStringValue fieldNameSpanID (drop_string fieldNameTraceID
       (drop_string (DefaultOperationIdKey g) (switch_data g e)))"
  "Operation (Format_entry f g st e) =
     (if getStringValue (DefaultOperationIdKey g) (switch_data g e) \<noteq> []
      then Some \<lparr>Id = getStringValue (DefaultOperationIdKey g) (switch_data g e), Producer = [],
                  First = None, Last = None\<rparr>
      else None)"
  by (simp_all add: Format_entry_def Format_context_def Format_state_def Let_def step_proj switch_data_def)

lemma Format_SourceLocation:
  assumes "errorOrigin f st = Inr cl"
  shows "SourceLocation (Format_entry f g st e) =
     (if is_error_tier (levelsToSeverity (Entry_Level e)) then None
      else Some \<lparr>File = fmt_plus_s cl, Line = decimal (lineNumber_of cl), Function = fmt_n cl\<rparr>)"
  using assms by (simp add: Format_entry_def Format_state_def Let_def step_proj)

lemma Format_fst: "fst (Format f g st e) = marshal_entry (Format_entry f g st e)"
  by (simp add: Format_def Let_def)


subsection \<open>Encoding\<close>

lemma map_of_omitempty_string:
  "map_of (omitempty_string k s) k' = (if k' = k \<and> s \<noteq> [] then Some (JStr s) else None)"
  by (simp add: omitempty_string_def)

lemma map_of_omitempty_int:
  "map_of (omitempty_int k n) k' = (if k' = k \<and> n \<noteq> 0 then Some (JNum n) else None)"
  by (simp add: omitempty_int_def)

lemma map_of_omitempty_ptr:
  "map_of (omitempty_ptr k p) k' = (if k' = k then p else None)"
  by (simp add: omitempty_ptr_def split: option.splits)

lemma map_of_omitempty_map:
  "map_of (omitempty_map k kvs) k' = (if k' = k \<and> kvs \<noteq> [] then Some (JObj kvs) else None)"
  by (simp add: omitempty_map_def)

lemma map_of_app:
  "map_of (xs @ ys) k = (case map_of xs k of None \<Rightarrow> map_of ys k | Some v \<Rightarrow> Some v)"
  by (simp add: map_add_def)

lemmas map_of_omit = map_of_app map_of_omitempty_string map_of_omitempty_int
  map_of_omitempty_ptr map_of_omitempty_map

lemma marshal_map_keys: "marshal_map m = Inr kvs \<Longrightarrow> map fst kvs = map fst m"
  by (induction m arbitrary: kvs) (auto split: sum.splits)

lemma marshal_map_Nil: "marshal_map m = Inr kvs \<Longrightarrow> kvs = [] \<longleftrightarrow> m = []"
  by (cases m) (auto split: sum.splits)

lemma marshal_entry_get:
  assumes "marshal_entry ee = Inr doc"
  shows "obj_get doc ''timestamp'' = (if Timestamp ee = [] then None else Some (JStr (Timestamp ee)))"
    and "obj_get doc ''serviceContext'' = map_option marshal_serviceContext (ServiceContext ee)"
    and "obj_get doc ''message'' = (if Message ee = [] then None else Some (JStr (Message ee)))"
    and "obj_get doc ''severity'' = (if Severity ee = [] then None else Some (JStr (Severity ee)))"
    and "obj_get doc ''logging.googleapis.com/trace'' = (if Trace ee = [] then None else Some (JStr (Trace ee)))"
    and "obj_get doc ''logging.googleapis.com/span_id'' = (if SpanID ee = [] then None else Some (JStr (SpanID ee)))"
    and "obj_get doc ''sourceLocation'' = map_option marshal_sourceLocation (SourceLocation ee)"
    and "obj_get doc ''operation'' = map_option marshal_operation (Operation ee)"
  using assms
  by (auto simp: marshal_entry_def obj_get_def map_of_omit simp del: map_of_append
      split: sum.splits option.splits)

lemma marshal_entry_context:
  assumes "marshal_entry ee = Inr doc" and "Context ee = Some c"
  shows "\<exists>cj. marshal_context c = Inr cj \<and> obj_get doc ''context'' = Some cj"
  using assms
  by (auto simp: marshal_entry_def obj_get_def map_of_omit simp del: map_of_append
      split: sum.splits option.splits)

lemma marshal_context_ok:
  assumes "marshal_context c = Inr cj"
  shows "\<exists>d h. marshal_map (Data c) = Inr d \<and> marshal_map (HTTPRequest c) = Inr h"
  using assms by (auto simp: marshal_context_def split: sum.splits)

lemma marshal_context_get:
  assumes "marshal_context c = Inr cj"
    and "marshal_map (Data c) = Inr d" and "marshal_map (HTTPRequest c) = Inr h"
  shows "obj_get cj ''data'' = (if Data c = [] then None else Some (JObj d))"
    and "obj_get cj ''reportLocation'' = map_option marshal_reportLocation (ReportLocation c)"
    and "obj_get cj ''httpRequest'' = (if HTTPRequest c = [] then None else Some (JObj h))"
    and "obj_get cj ''user'' = (if User c = [] then None else Some (JStr (User c)))"
  using assms
  by (auto simp: marshal_context_def obj_get_def map_of_omit marshal_map_Nil
      simp del: map_of_append split: option.splits)









subsection \<open>The document returned by Format\<close>

lemma digits_nonempty: "digits n \<noteq> []"
  by (subst digits.simps) simp

lemma decimal_nonempty: "decimal i \<noteq> []"
  by (simp add: decimal_def digits_nonempty)

lemma is_error_tier_iff:
  "is_error_tier (levelsToSeverity l) \<longleftrightarrow> l \<in> {ErrorLevel, FatalLevel, PanicLevel}"
  by (auto simp: is_error_tier_def levelsToSeverity_def severityDebug_def severityInfo_def
      severityWarning_def severityError_def severityCritical_def severityAlert_def
      PanicLevel_def FatalLevel_def ErrorLevel_def WarnLevel_def InfoLevel_def DebugLevel_def)

lemma levelsToSeverity_empty_iff:
  "levelsToSeverity l = [] \<longleftrightarrow>
     l \<notin> {DebugLevel, InfoLevel, WarnLevel, ErrorLevel, FatalLevel, PanicLevel}"
  by (auto simp: levelsToSeverity_def severityDebug_def severityInfo_def
      severityWarning_def severityError_def severityCritical_def severityAlert_def)


lemma Format_context_doc:
  assumes "fst (Format f g st e) = Inr doc"
  shows "\<exists>cj d h. obj_get doc ''context'' = Some cj
      \<and> marshal_context (Format_context f g st e) = Inr cj
      \<and> marshal_map (Data (Format_context f g st e)) = Inr d
      \<and> marshal_map (HTTPRequest (Format_context f g st e)) = Inr h"
proof -
  from assms have m: "marshal_entry (Format_entry f g st e) = Inr doc"
    by (simp add: Format_fst)
  have c: "Context (Format_entry f g st e) = Some (Format_context f g st e)"
    by (rule Format_entry_fields)
  from marshal_entry_context [OF m c] obtain cj
    where cj: "marshal_context (Format_context f g st e) = Inr cj"
      and g: "obj_get doc ''context'' = Some cj" by blast
  from marshal_context_ok [OF cj] cj g show ?thesis by blast
qed

lemma Format_get2:
  assumes "fst (Format f g st e) = Inr doc"
  shows "obj_get2 doc ''context'' ''reportLocation''
           = map_option marshal_reportLocation (ReportLocation (Format_context f g st e))"
    and "obj_get2 doc ''context'' ''user''
           = (if User (Format_context f g st e) = [] then None
              else Some (JStr (User (Format_context f g st e))))"
    and "obj_get2 doc ''context'' ''httpRequest'' = None
           \<longleftrightarrow> HTTPRequest (Format_context f g st e) = []"
    and "obj_get2 doc ''context'' ''data'' = None \<longleftrightarrow> Data (Format_context f g st e) = []"
    and "data_keys doc = fst ` set (Data (Format_context f g st e))"
proof -
  from Format_context_doc [OF assms] obtain cj d h
    where g: "obj_get doc ''context'' = Some cj"
      and cj: "marshal_context (Format_context f g st e) = Inr cj"
      and d: "marshal_map (Data (Format_context f g st e)) = Inr d"
      and h: "marshal_map (HTTPRequest (Format_context f g st e)) = Inr h" by blast
  note get = marshal_context_get [OF cj d h]
  show "obj_get2 doc ''context'' ''reportLocation''
           = map_option marshal_reportLocation (ReportLocation (Format_context f g st e))"
    by (simp add: obj_get2_def g get)
  show "obj_get2 doc ''context'' ''user''
           = (if User (Format_context f g st e) = [] then None
              else Some (JStr (User (Format_context f g st e))))"
    by (simp add: obj_get2_def g get)
  show "obj_get2 doc ''context'' ''httpRequest'' = None
           \<longleftrightarrow> HTTPRequest (Format_context f g st e) = []"
    by (simp add: obj_get2_def g get)
  show "obj_get2 doc ''context'' ''data'' = None \<longleftrightarrow> Data (Format_context f g st e) = []"
    by (simp add: obj_get2_def g get)
  have "map fst d = map fst (Data (Format_context f g st e))"
    using d by (rule marshal_map_keys)
  then have "fst ` set d = fst ` set (Data (Format_context f g st e))"
    by (metis set_map)
  then show "data_keys doc = fst ` set (Data (Format_context f g st e))"
    by (simp add: data_keys_def obj_get2_def g get)
qed

lemma Format_get:
  assumes "fst (Format f g st e) = Inr doc"
  shows "obj_get doc ''message'' =
           (if Message (Format_entry f g st e) = [] then None
            else Some (JStr (Message (Format_entry f g st e))))"
    and "obj_get doc ''severity'' =
           (if levelsToSeverity (Entry_Level e) = [] then None
            else Some (JStr (levelsToSeverity (Entry_Level e))))"
    and "obj_get doc ''serviceContext'' =
           map_option marshal_serviceContext (ServiceContext (Format_entry f g st e))"
    and "obj_get doc ''sourceLocation'' =
           map_option marshal_sourceLocation (SourceLocation (Format_entry f g st e))"
    and "obj_get doc ''operation'' =
           map_option marshal_operation (Operation (Format_entry f g st e))"
    and "obj_get doc ''logging.googleapis.com/trace'' =
           (if Trace (Format_entry f g st e) = [] then None
            else Some (JStr (Trace (Format_entry f g st e))))"
    and "obj_get doc ''logging.googleapis.com/span_id'' =
           (if SpanID (Format_entry f g st e) = [] then None
            else Some (JStr (SpanID (Format_entry f g st e))))"
  using marshal_entry_get [of "Format_entry f g st e" doc] assms
  by (simp_all add: Format_fst Format_entry_fields(4))

subsection \<open>The field map after the severity switch\<close>




subsection \<open>Empty strings\<close>




lemma origin_found_Resolved:
  "origin_found f st \<Longrightarrow> \<exists>fr. errorOrigin f st = Inr (Resolved fr)"
  by (auto simp: origin_found_def split: sum.splits call.splits)

subsection \<open>Strings that are moved\<close>






subsection \<open>Values of the wrong kind\<close>





subsection \<open>Members of the encoded objects\<close>

lemma in_omitempty_string:
  "(k, v) \<in> set (omitempty_string k' s) \<longleftrightarrow> k = k' \<and> v = JStr s \<and> s \<noteq> []"
  by (auto simp: omitempty_string_def)

lemma in_omitempty_int:
  "(k, v) \<in> set (omitempty_int k' n) \<longleftrightarrow> k = k' \<and> v = JNum n \<and> n \<noteq> 0"
  by (auto simp: omitempty_int_def)

lemma in_omitempty_ptr:
  "(k, v) \<in> set (omitempty_ptr k' p) \<longleftrightarrow> k = k' \<and> p = Some v"
  by (auto simp: omitempty_ptr_def split: option.splits)

lemma in_omitempty_map:
  "(k, v) \<in> set (omitempty_map k' kvs) \<longleftrightarrow> k = k' \<and> v = JObj kvs \<and> kvs \<noteq> []"
  by (auto simp: omitempty_map_def)

lemmas in_omit = in_omitempty_string in_omitempty_int in_omitempty_ptr in_omitempty_map

lemma obj_get_members: "obj_get (JObj kvs) k = Some v \<Longrightarrow> (k, v) \<in> set kvs"
  by (simp add: obj_get_def map_of_SomeD)

lemma serviceContext_members:
  "obj_get (marshal_serviceContext sc) k = Some v \<Longrightarrow> \<not> empty_json v"
  by (auto simp: marshal_serviceContext_def in_omit empty_json_def dest!: obj_get_members)

lemma reportLocation_members:
  "obj_get (marshal_reportLocation r) k = Some v \<Longrightarrow> \<not> empty_json v"
  by (auto simp: marshal_reportLocation_def in_omit empty_json_def dest!: obj_get_members)

lemma sourceLocation_members:
  "obj_get (marshal_sourceLocation sl) k = Some v \<Longrightarrow> \<not> empty_json v"
  by (auto simp: marshal_sourceLocation_def in_omit empty_json_def dest!: obj_get_members)

lemma operation_members:
  "First op = None \<Longrightarrow> Last op = None \<Longrightarrow> obj_get (marshal_operation op) k = Some v
     \<Longrightarrow> \<not> empty_json v"
  by (auto simp: marshal_operation_def in_omit empty_json_def dest!: obj_get_members)

lemma context_members:
  assumes "marshal_context c = Inr cj" and "obj_get cj k = Some v" and "empty_json v"
  shows "k = ''reportLocation'' \<and> v = JObj []"
proof -
  from assms(1) obtain d h where cj: "cj = JObj (omitempty_map ''data'' d
        @ omitempty_ptr ''reportLocation'' (map_option marshal_reportLocation (ReportLocation c))
        @ omitempty_map ''httpRequest'' h @ omitempty_string ''user'' (User c))"
    by (auto simp: marshal_context_def split: sum.splits)
  from assms(2) have "(k, v) \<in> set (omitempty_map ''data'' d
        @ omitempty_ptr ''reportLocation'' (map_option marshal_reportLocation (ReportLocation c))
        @ omitempty_map ''httpRequest'' h @ omitempty_string ''user'' (User c))"
    unfolding cj by (rule obj_get_members)
  with assms(3) show ?thesis
    by (auto simp: in_omit empty_json_def marshal_reportLocation_def split: json.splits)
qed

lemma entry_members:
  assumes "marshal_entry ee = Inr doc" and "obj_get doc k = Some v" and "empty_json v"
    and "\<And>sl. SourceLocation ee = Some sl \<Longrightarrow> Line sl \<noteq> []"
    and "\<And>op. Operation ee = Some op \<Longrightarrow> Id op \<noteq> []"
  shows "k \<in> {''context'', ''serviceContext''}"
proof -
  from assms(1) obtain ctx where doc: "doc = JObj (omitempty_string ''timestamp'' (Timestamp ee)
        @ omitempty_ptr ''serviceContext'' (map_option marshal_serviceContext (ServiceContext ee))
        @ omitempty_string ''message'' (Message ee)
        @ omitempty_string ''severity'' (Severity ee)
        @ omitempty_ptr ''context'' ctx
        @ omitempty_string ''logging.googleapis.com/trace'' (Trace ee)
        @ omitempty_string ''logging.googleapis.com/span_id'' (SpanID ee)
        @ omitempty_ptr ''sourceLocation'' (map_option marshal_sourceLocation (SourceLocation ee))
        @ omitempty_ptr ''operation'' (map_option marshal_operation (Operation ee)))"
    by (auto simp: marshal_entry_def split: sum.splits)
  from assms(2) have "(k, v) \<in> set (omitempty_string ''timestamp'' (Timestamp ee)
        @ omitempty_ptr ''serviceContext'' (map_option marshal_serviceContext (ServiceContext ee))
        @ omitempty_string ''message'' (Message ee)
        @ omitempty_string ''severity'' (Severity ee)
        @ omitempty_ptr ''context'' ctx
        @ omitempty_string ''logging.googleapis.com/trace'' (Trace ee)
        @ omitempty_string ''logging.googleapis.com/span_id'' (SpanID ee)
        @ omitempty_ptr ''sourceLocation'' (map_option marshal_sourceLocation (SourceLocation ee))
        @ omitempty_ptr ''operation'' (map_option marshal_operation (Operation ee)))"
    unfolding doc by (rule obj_get_members)
  then consider
      (str) s where "v = JStr s" "s \<noteq> []"
    | (sc) "k = ''serviceContext''"
    | (ctx) "k = ''context''"
    | (sl) sl where "SourceLocation ee = Some sl" "v = marshal_sourceLocation sl"
    | (op) op where "Operation ee = Some op" "v = marshal_operation op"
    by (auto simp: in_omit)
  then show ?thesis
  proof cases
    case str
    with assms(3) show ?thesis by (simp add: empty_json_def)
  next
    case sc
    then show ?thesis by simp
  next
    case ctx
    then show ?thesis by simp
  next
    case sl
    from assms(4) [OF sl(1)] have "v \<noteq> JObj []"
      by (simp add: sl(2) marshal_sourceLocation_def omitempty_string_def)
    with assms(3) sl(2) show ?thesis
      by (simp add: empty_json_def marshal_sourceLocation_def)
  next
    case op
    from assms(5) [OF op(1)] have "v \<noteq> JObj []"
      by (simp add: op(2) marshal_operation_def omitempty_string_def)
    with assms(3) op(2) show ?thesis
      by (simp add: empty_json_def marshal_operation_def)
  qed
qed

lemma Format_Line_nonempty:
  "SourceLocation (Format_entry f g st e) = Some sl \<Longrightarrow> Line sl \<noteq> []"
proof -
  obtain cl where cl: "errorOrigin f st = Inr cl" using errorOrigin_Inr by blast
  assume "SourceLocation (Format_entry f g st e) = Some sl"
  then show ?thesis
    by (auto simp: Format_SourceLocation [OF cl] decimal_nonempty split: if_splits)
qed

lemma Format_Operation_fields:
  "Operation (Format_entry f g st e) = Some op
     \<Longrightarrow> Id op \<noteq> [] \<and> First op = None \<and> Last op = None"
  by (auto simp: Format_entry_fields split: if_splits)

section \<open>The claims\<close>




text \<open>
  C2. When the walk runs off the stack, \<open>errorOrigin\<close> returns the zero call with a nil
  error, and \<open>Format\<close>, which tests only the error, writes a location from the zero
  call. With every package of \<open>stack_main\<close> listed in \<open>StackSkip\<close>, the output of an
  info record carries \<open>sourceLocation\<close> and that of an error record carries
  \<open>context.reportLocation\<close>, both filled with the rendering of the zero call.
\<close>

theorem exhausted_stack_location_written:
  "errorOrigin fmtr_skip_all stack_main = Inr NoFunc
   \<and> out_get (fst (Format fmtr_skip_all quiet_globals stack_main rec_info_empty)) ''sourceLocation''
       = Some (JObj [(''file'', JStr ''%!s(NOFUNC)''), (''line'', JStr ''0''),
                     (''function'', JStr ''%!n(NOFUNC)'')])
   \<and> out_get2 (fst (Format fmtr_skip_all quiet_globals stack_main rec_error_empty))
         ''context'' ''reportLocation''
       = Some (JObj [(''filePath'', JStr ''%!s(NOFUNC)''), (''functionName'', JStr ''%!n(NOFUNC)'')])"
  by code_simp




text \<open>
  C4, as the code has it. In every document that \<open>Format\<close> returns, a string, number
  or map field that is empty or zero is left out, at the top level and inside
  \<open>serviceContext\<close>, \<open>context\<close>, \<open>reportLocation\<close>, \<open>sourceLocation\<close> and
  \<open>operation\<close>. The sub-objects held by pointer are written whenever \<open>Format\<close> has
  allocated them, even when nothing is inside: \<open>context\<close> always, \<open>serviceContext\<close>
  for every error-tier record; these and \<open>context.reportLocation\<close> are the only
  members that can be empty.
\<close>

theorem empty_fields_left_out:
  assumes "fst (Format f g st e) = Inr doc"
  shows "has_key doc ''context''
       \<and> (Entry_Level e \<in> {ErrorLevel, FatalLevel, PanicLevel} \<longrightarrow> has_key doc ''serviceContext'')
       \<and> (\<forall>k v. obj_get doc k = Some v \<and> empty_json v \<longrightarrow> k \<in> {''context'', ''serviceContext''})
       \<and> (\<forall>k v. obj_get2 doc ''context'' k = Some v \<and> empty_json v \<longrightarrow> k = ''reportLocation'')
       \<and> (\<forall>sub k v. sub \<in> {''serviceContext'', ''sourceLocation'', ''operation''}
             \<and> obj_get2 doc sub k = Some v \<longrightarrow> \<not> empty_json v)
       \<and> (\<forall>cj k v. obj_get doc ''context'' = Some cj
             \<and> obj_get2 cj ''reportLocation'' k = Some v \<longrightarrow> \<not> empty_json v)"
proof -
  let ?ee = "Format_entry f g st e"
  from assms have m: "marshal_entry ?ee = Inr doc" by (simp add: Format_fst)
  from Format_context_doc [OF assms] obtain cj0
    where g: "obj_get doc ''context'' = Some cj0"
      and cj0: "marshal_context (Format_context f g st e) = Inr cj0" by blast
  have a: "has_key doc ''context''" by (simp add: has_key_def g)
  have b: "has_key doc ''serviceContext''" if "Entry_Level e \<in> {ErrorLevel, FatalLevel, PanicLevel}"
  proof -
    from that have "is_error_tier (levelsToSeverity (Entry_Level e))"
      by (simp add: is_error_tier_iff)
    then show ?thesis
      by (simp add: has_key_def Format_get [OF assms] Format_entry_fields)
  qed
  have c: "k \<in> {''context'', ''serviceContext''}" if "obj_get doc k = Some v" "empty_json v" for k v
    using m that
  proof (rule entry_members)
    show "\<And>sl. SourceLocation ?ee = Some sl \<Longrightarrow> Line sl \<noteq> []"
      by (rule Format_Line_nonempty)
    show "\<And>op. Operation ?ee = Some op \<Longrightarrow> Id op \<noteq> []"
      by (simp add: Format_Operation_fields)
  qed
  have d: "k = ''reportLocation''" if "obj_get2 doc ''context'' k = Some v" "empty_json v" for k v
  proof -
    from that(1) have "obj_get cj0 k = Some v" by (simp add: obj_get2_def g)
    with cj0 that(2) show ?thesis using context_members by simp
  qed
  have e1: "\<not> empty_json v" if "obj_get2 doc ''serviceContext'' k = Some v" for k v
    using that
    by (auto simp: obj_get2_def Format_get [OF assms] dest: serviceContext_members
        split: option.splits)
  have e2: "\<not> empty_json v" if "obj_get2 doc ''sourceLocation'' k = Some v" for k v
    using that
    by (auto simp: obj_get2_def Format_get [OF assms] dest: sourceLocation_members
        split: option.splits)
  have e3: "\<not> empty_json v" if "obj_get2 doc ''operation'' k = Some v" for k v
  proof -
    from that obtain op where op: "Operation ?ee = Some op"
      and v: "obj_get (marshal_operation op) k = Some v"
      by (auto simp: obj_get2_def Format_get [OF assms] split: option.splits)
    from Format_Operation_fields [OF op] have "First op = None" "Last op = None"
      by simp_all
    then show ?thesis using v by (rule operation_members)
  qed
  have f: "\<not> empty_json v"
    if "obj_get doc ''context'' = Some cj" "obj_get2 cj ''reportLocation'' k = Some v" for cj k v
  proof -
    from that(1) g have "cj = cj0" by simp
    with that(2) have "obj_get2 doc ''context'' ''reportLocation'' \<noteq> None
        \<and> (\<exists>r. obj_get cj0 ''reportLocation'' = Some r \<and> obj_get r k = Some v)"
      by (auto simp: obj_get2_def g split: option.splits)
    then obtain r where r: "obj_get2 doc ''context'' ''reportLocation'' = Some r"
      and v: "obj_get r k = Some v"
      by (auto simp: obj_get2_def g)
    from r obtain rl where "r = marshal_reportLocation rl"
      by (auto simp: Format_get2 [OF assms])
    with v show ?thesis by (simp add: reportLocation_members)
  qed
  from a b c d e1 e2 e3 f show ?thesis
    by (intro conjI allI impI) auto
qed

theorem empty_fields_left_out_witness:
  "out_get (fst (Format fmtr_default quiet_globals stack_main rec_error_empty)) ''context'' \<noteq> None
   \<and> out_get (fst (Format fmtr_default quiet_globals stack_main rec_error_empty)) ''serviceContext''
       = Some (JObj [])
   \<and> out_get (fst (Format fmtr_default quiet_globals stack_main rec_error_empty)) ''timestamp'' = None"
proof -
  let ?D = "JObj [(''serviceContext'', JObj []), (''message'', JStr ''my log entry''),
      (''severity'', JStr ''ERROR''),
      (''context'', JObj [(''reportLocation'', JObj [(''filePath'', JStr ''main/main.go''),
         (''lineNumber'', JNum 19), (''functionName'', JStr ''main'')])])]"
  have r: "fst (Format fmtr_default quiet_globals stack_main rec_error_empty) = Inr ?D"
    by code_simp
  have l: "Entry_Level rec_error_empty \<in> {ErrorLevel, FatalLevel, PanicLevel}"
    by (simp add: rec_error_empty_def)
  note t = empty_fields_left_out [OF r]
  from t have h1: "has_key ?D ''context''" by (rule conjunct1)
  from conjunct1 [OF conjunct2 [OF t]] l have h2: "has_key ?D ''serviceContext''" by (rule mp)
  from h1 h2 have h: "has_key ?D ''context'' \<and> has_key ?D ''serviceContext''" by (rule conjI)
  have s: "obj_get ?D ''serviceContext'' = Some (JObj [])" "obj_get ?D ''timestamp'' = None"
    by (simp_all add: obj_get_def)
  from h s show ?thesis
    unfolding r by (simp add: out_get_def has_key_def)
qed

theorem empty_context_written_counterexample:
  "errorOrigin fmtr_skip_all stack_main = Inr NoFunc
   \<and> out_get (fst (Format fmtr_skip_all quiet_globals stack_main rec_info_empty)) ''context''
       = Some (JObj [])
   \<and> Service fmtr_default = [] \<and> Version fmtr_default = []
   \<and> out_get (fst (Format fmtr_default quiet_globals stack_main rec_error_empty)) ''serviceContext''
       = Some (JObj [])"
  by code_simp

text \<open>
  C5. A record at debug, info or warning level gets \<open>sourceLocation\<close> (when an origin
  is found) and neither \<open>context.reportLocation\<close> nor \<open>serviceContext\<close>; a record at
  error, fatal or panic level gets \<open>serviceContext\<close> and (when an origin is found)
  \<open>context.reportLocation\<close>, and no top-level \<open>sourceLocation\<close>.
\<close>

theorem location_by_tier:
  assumes "fst (Format f g st e) = Inr doc"
  shows "(Entry_Level e \<in> {DebugLevel, InfoLevel, WarnLevel} \<longrightarrow>
            (origin_found f st \<longrightarrow> has_key doc ''sourceLocation'')
          \<and> obj_get2 doc ''context'' ''reportLocation'' = None
          \<and> \<not> has_key doc ''serviceContext'')
       \<and> (Entry_Level e \<in> {ErrorLevel, FatalLevel, PanicLevel} \<longrightarrow>
            has_key doc ''serviceContext''
          \<and> (origin_found f st \<longrightarrow> obj_get2 doc ''context'' ''reportLocation'' \<noteq> None)
          \<and> \<not> has_key doc ''sourceLocation'')"
proof -
  obtain cl where cl: "errorOrigin f st = Inr cl"
    using errorOrigin_Inr by blast
  have sub: "Entry_Level e \<in> {DebugLevel, InfoLevel, WarnLevel}
      \<Longrightarrow> \<not> is_error_tier (levelsToSeverity (Entry_Level e))"
    by (auto simp: is_error_tier_iff PanicLevel_def FatalLevel_def ErrorLevel_def
        WarnLevel_def InfoLevel_def DebugLevel_def)
  have err: "Entry_Level e \<in> {ErrorLevel, FatalLevel, PanicLevel}
      \<Longrightarrow> is_error_tier (levelsToSeverity (Entry_Level e))"
    by (simp add: is_error_tier_iff)
  show ?thesis
    using sub err
    by (auto simp: has_key_def Format_get [OF assms] Format_get2 [OF assms]
        Format_entry_fields Format_SourceLocation [OF cl] Format_ReportLocation [OF cl])
qed

theorem location_by_tier_witness:
  "origin_found fmtr_test stack_main
   \<and> out_get (fst (Format fmtr_test quiet_globals stack_main rec_info_empty)) ''sourceLocation'' \<noteq> None
   \<and> out_get2 (fst (Format fmtr_test quiet_globals stack_main rec_info_empty))
        ''context'' ''reportLocation'' = None
   \<and> out_get (fst (Format fmtr_test quiet_globals stack_main rec_info_empty)) ''serviceContext'' = None
   \<and> out_get (fst (Format fmtr_test quiet_globals stack_main rec_error_empty)) ''serviceContext'' \<noteq> None
   \<and> out_get2 (fst (Format fmtr_test quiet_globals stack_main rec_error_empty))
        ''context'' ''reportLocation'' \<noteq> None
   \<and> out_get (fst (Format fmtr_test quiet_globals stack_main rec_error_empty)) ''sourceLocation'' = None"
proof -
  let ?D1 = "JObj [(''message'', JStr ''application up and running''), (''severity'', JStr ''INFO''),
      (''context'', JObj []),
      (''sourceLocation'', JObj [(''file'', JStr ''main/main.go''), (''line'', JStr ''19''),
         (''function'', JStr ''main'')])]"
  let ?D2 = "JObj [(''serviceContext'', JObj [(''service'', JStr ''test''), (''version'', JStr ''0.1'')]),
      (''message'', JStr ''my log entry''), (''severity'', JStr ''ERROR''),
      (''context'', JObj [(''reportLocation'', JObj [(''filePath'', JStr ''main/main.go''),
         (''lineNumber'', JNum 19), (''functionName'', JStr ''main'')])])]"
  have r1: "fst (Format fmtr_test quiet_globals stack_main rec_info_empty) = Inr ?D1"
    by code_simp
  have r2: "fst (Format fmtr_test quiet_globals stack_main rec_error_empty) = Inr ?D2"
    by code_simp
  have o: "origin_found fmtr_test stack_main" by code_simp
  have l1: "Entry_Level rec_info_empty \<in> {DebugLevel, InfoLevel, WarnLevel}"
    by (simp add: rec_info_empty_def)
  have l2: "Entry_Level rec_error_empty \<in> {ErrorLevel, FatalLevel, PanicLevel}"
    by (simp add: rec_error_empty_def)
  from location_by_tier [OF r1] l1 o
  have a: "has_key ?D1 ''sourceLocation'' \<and> obj_get2 ?D1 ''context'' ''reportLocation'' = None
      \<and> \<not> has_key ?D1 ''serviceContext''" by blast
  from location_by_tier [OF r2] l2 o
  have b: "has_key ?D2 ''serviceContext'' \<and> obj_get2 ?D2 ''context'' ''reportLocation'' \<noteq> None
      \<and> \<not> has_key ?D2 ''sourceLocation''" by blast
  from a b o show ?thesis
    unfolding r1 r2 by (simp add: out_get_def out_get2_def has_key_def)
qed











text \<open>
  C10. A record whose level is none of the six listed in \<open>levelsToSeverity\<close> has the
  empty severity and takes the default branch: no \<open>serviceContext\<close>, the message as
  given, no request or user moved out of the field map, which is subject only to the
  three extractions that follow the switch, and \<open>sourceLocation\<close> written when an
  origin is found.
\<close>

theorem unmapped_level_takes_default_branch:
  assumes "Entry_Level e \<notin> {DebugLevel, InfoLevel, WarnLevel, ErrorLevel, FatalLevel, PanicLevel}"
  shows "Severity (Format_entry f g st e) = []
       \<and> ServiceContext (Format_entry f g st e) = None
       \<and> Message (Format_entry f g st e) = Entry_Message e
       \<and> HTTPRequest (Format_context f g st e) = []
       \<and> User (Format_context f g st e) = []
       \<and> ReportLocation (Format_context f g st e) = None
       \<and> Data (Format_context f g st e) =
           drop_string fieldNameSpanID (drop_string fieldNameTraceID
             (drop_string (DefaultOperationIdKey g) (Entry_Data e)))
       \<and> (origin_found f st \<longrightarrow> SourceLocation (Format_entry f g st e) \<noteq> None)
       \<and> (\<forall>doc. fst (Format f g st e) = Inr doc \<longrightarrow>
             \<not> has_key doc ''severity'' \<and> \<not> has_key doc ''serviceContext''
           \<and> (origin_found f st \<longrightarrow> has_key doc ''sourceLocation''))"
proof -
  obtain cl where cl: "errorOrigin f st = Inr cl"
    using errorOrigin_Inr by blast
  from assms have sev: "levelsToSeverity (Entry_Level e) = []"
    by (simp add: levelsToSeverity_empty_iff)
  from assms have t: "\<not> is_error_tier (levelsToSeverity (Entry_Level e))"
    by (simp add: is_error_tier_iff)
  have a: "Severity (Format_entry f g st e) = []"
    using sev by (simp add: Format_entry_fields)
  have b: "ServiceContext (Format_entry f g st e) = None"
    using t by (simp add: Format_entry_fields)
  have c: "Message (Format_entry f g st e) = Entry_Message e"
    using t by (simp add: Format_entry_fields)
  have d: "HTTPRequest (Format_context f g st e) = []"
    using t by (simp add: Format_HTTPRequest)
  have u: "User (Format_context f g st e) = []"
    using t by (simp add: Format_User)
  have r: "ReportLocation (Format_context f g st e) = None"
    using t by (simp add: Format_ReportLocation [OF cl])
  have m: "Data (Format_context f g st e) =
           drop_string fieldNameSpanID (drop_string fieldNameTraceID
             (drop_string (DefaultOperationIdKey g) (Entry_Data e)))"
    using t by (simp add: Format_Data switch_data_def)
  have s: "SourceLocation (Format_entry f g st e) \<noteq> None"
    using t by (simp add: Format_SourceLocation [OF cl])
  have o: "\<forall>doc. fst (Format f g st e) = Inr doc \<longrightarrow>
             \<not> has_key doc ''severity'' \<and> \<not> has_key doc ''serviceContext''
           \<and> (origin_found f st \<longrightarrow> has_key doc ''sourceLocation'')"
  proof (intro allI impI)
    fix doc assume res: "fst (Format f g st e) = Inr doc"
    from sev b s show "\<not> has_key doc ''severity'' \<and> \<not> has_key doc ''serviceContext''
           \<and> (origin_found f st \<longrightarrow> has_key doc ''sourceLocation'')"
      by (auto simp: has_key_def Format_get [OF res])
  qed
  from a b c d u r m s o show ?thesis by simp
qed

theorem unmapped_level_takes_default_branch_witness:
  "origin_found fmtr_test stack_main
   \<and> Severity (Format_entry fmtr_test quiet_globals stack_main rec_trace_level) = []
   \<and> ServiceContext (Format_entry fmtr_test quiet_globals stack_main rec_trace_level) = None
   \<and> Message (Format_entry fmtr_test quiet_globals stack_main rec_trace_level) = ''my log entry''
   \<and> Data (Format_context fmtr_test quiet_globals stack_main rec_trace_level)
       = [(''error'', VErr ''test error'')]
   \<and> fst (Format fmtr_test quiet_globals stack_main rec_trace_level)
       = Inr (JObj [(''message'', JStr ''my log entry''),
                    (''context'', JObj [(''data'', JObj [(''error'', JObj [])])]),
                    (''sourceLocation'', JObj [(''file'', JStr ''main/main.go''),
                       (''line'', JStr ''19''), (''function'', JStr ''main'')])])"
proof -
  have l: "Entry_Level rec_trace_level
      \<notin> {DebugLevel, InfoLevel, WarnLevel, ErrorLevel, FatalLevel, PanicLevel}"
    by (simp add: rec_trace_level_def PanicLevel_def FatalLevel_def ErrorLevel_def
        WarnLevel_def InfoLevel_def DebugLevel_def)
  have o: "origin_found fmtr_test stack_main" by code_simp
  have r: "fst (Format fmtr_test quiet_globals stack_main rec_trace_level)
       = Inr (JObj [(''message'', JStr ''my log entry''),
                    (''context'', JObj [(''data'', JObj [(''error'', JObj [])])]),
                    (''sourceLocation'', JObj [(''file'', JStr ''main/main.go''),
                       (''line'', JStr ''19''), (''function'', JStr ''main'')])])"
    by code_simp
  have d: "drop_string fieldNameSpanID (drop_string fieldNameTraceID
             (drop_string (DefaultOperationIdKey quiet_globals) (Entry_Data rec_trace_level)))
           = [(''error'', VErr ''test error'')]"
    by code_simp
  from unmapped_level_takes_default_branch [OF l, of fmtr_test quiet_globals stack_main] o r d
  show ?thesis by (simp add: rec_trace_level_def)
qed

end
